theory Spec2Isabelle
  imports Main "HOL-Library.Word"
begin

section \<open>Strings\<close>

text \<open>
  A JavaScript string is modelled as a \<open>string\<close>: one \<open>char\<close> per UTF-16 code unit,
  for code units in the range 0..255. Every text the code compares against, searches
  for or hashes (brackets, the digits of an identifier, the fixed error messages) lies
  in that range.
\<close>

definition charCode :: "char \<Rightarrow> nat" where
  "charCode c = of_char c"

definition is_digit :: "char \<Rightarrow> bool" where
  "is_digit c = (48 \<le> charCode c \<and> charCode c \<le> 57)"

text \<open>
  The character of a digit \<open>d < 16\<close>, and the decimal rendering of a non-negative integer,
  as a template literal prints it.
\<close>

definition digit_char :: "nat \<Rightarrow> char" where
  "digit_char d = ''0123456789abcdef'' ! d"

fun show_nat :: "nat \<Rightarrow> string" where
  "show_nat n =
     (if n < 10 then [digit_char n]
      else show_nat (n div 10) @ [digit_char (n mod 10)])"

declare show_nat.simps [simp del]

text \<open>
  \<open>String.prototype.trim\<close> removes white space and line terminators at both ends; in
  the modelled range these are the code units 9 to 13, 32 and 160.
\<close>

definition is_space :: "char \<Rightarrow> bool" where
  "is_space c = (charCode c \<in> {9, 10, 11, 12, 13, 32, 160})"

definition trim :: "string \<Rightarrow> string" where
  "trim s = rev (dropWhile is_space (rev (dropWhile is_space s)))"

text \<open>
  \<open>indexOf\<close> and \<open>lastIndexOf\<close> of a single character: the first and the last position
  where it stands, \<open>None\<close> for the result -1.
\<close>

fun indexOf :: "'a list \<Rightarrow> 'a \<Rightarrow> nat option" where
  "indexOf [] c = None"
| "indexOf (x # xs) c = (if x = c then Some 0 else map_option Suc (indexOf xs c))"

definition lastIndexOf :: "'a list \<Rightarrow> 'a \<Rightarrow> nat option" where
  "lastIndexOf xs c = map_option (\<lambda>i. length xs - 1 - i) (indexOf (rev xs) c)"

text \<open>
  \<open>s.substring(a, b)\<close> for indices that are not negative: both are capped at the length
  and taken in order.
\<close>

definition substring :: "'a list \<Rightarrow> nat \<Rightarrow> nat \<Rightarrow> 'a list" where
  "substring s a b =
     (let a' = min a (length s); b' = min b (length s)
      in take (max a' b' - min a' b') (drop (min a' b') s))"

text \<open>\<open>s.includes(t)\<close>: \<open>t\<close> stands somewhere in \<open>s\<close>.\<close>

fun includes_text :: "'a list \<Rightarrow> 'a list \<Rightarrow> bool" where
  "includes_text [] t = (t = [])"
| "includes_text (c # cs) t = (take (length t) (c # cs) = t \<or> includes_text cs t)"

text \<open>
  \<open>toLowerCase\<close>: in the modelled range the letters with a lower case of their own are
  A to Z and the code units 192 to 222 but 215, each 32 below its lower case.
\<close>

definition lower_char :: "char \<Rightarrow> char" where
  "lower_char c =
     (let n = charCode c
      in if (65 \<le> n \<and> n \<le> 90) \<or> (192 \<le> n \<and> n \<le> 222 \<and> n \<noteq> 215)
         then char_of (n + 32) else c)"

definition toLowerCase :: "string \<Rightarrow> string" where
  "toLowerCase s = map lower_char s"

text \<open>The value of a hexadecimal digit, in either case, and whether a character is one.\<close>

definition hex_digit :: "char \<Rightarrow> nat option" where
  "hex_digit c = indexOf ''0123456789abcdef'' (lower_char c)"

definition is_hex :: "char \<Rightarrow> bool" where
  "is_hex c = (hex_digit c \<noteq> None)"

section \<open>Error taxonomy (types.ts)\<close>

text \<open>
  \<open>ApiError\<close> and its four subclasses. An instance carries the \<open>name\<close> its constructor
  sets and its \<open>message\<close>; the name tells the classes apart, and it is the kind of the
  classified error: InvalidCredential is \<open>InvalidApiKeyError\<close>, NotFound is
  \<open>NotFoundError\<close>, RateLimited is \<open>RateLimitError\<close>, ContentBlocked is
  \<open>GeminiSafetyError\<close>, Generic is the base class \<open>ApiError\<close>.
\<close>

datatype error_name =
  ApiError | InvalidApiKeyError | NotFoundError | RateLimitError | GeminiSafetyError

record api_error =
  name :: error_name
  message :: string

definition new_ApiError :: "string \<Rightarrow> api_error" where
  "new_ApiError msg = \<lparr>name = ApiError, message = msg\<rparr>"

definition new_InvalidApiKeyError :: "string \<Rightarrow> api_error" where
  "new_InvalidApiKeyError serviceName =
     \<lparr>name = InvalidApiKeyError,
      message = ''Invalid API key for '' @ serviceName
        @ ''. Please check it in the Configuration page.''\<rparr>"

definition new_NotFoundError :: "string \<Rightarrow> api_error" where
  "new_NotFoundError msg = \<lparr>name = NotFoundError, message = msg\<rparr>"

definition new_RateLimitError :: "string \<Rightarrow> api_error" where
  "new_RateLimitError serviceName =
     \<lparr>name = RateLimitError,
      message = ''Rate limit exceeded for '' @ serviceName @ ''. Please try again later.''\<rparr>"

definition new_GeminiSafetyError :: "string \<Rightarrow> api_error" where
  "new_GeminiSafetyError msg = \<lparr>name = GeminiSafetyError, message = msg\<rparr>"

text \<open>
  What a \<open>throw\<close> or a rejected promise carries: an instance of the taxonomy, or a fault
  of the platform or of a library (a \<open>TypeError\<close>, a \<open>SyntaxError\<close>, the model client's
  own error), an \<open>Error\<close> with a name and a message that is no \<open>ApiError\<close>.
\<close>

datatype thrown = Classified api_error | Fault string string

text \<open>
  \<open>Error.prototype.toString\<close>: the name, a colon and the message; the one that is not
  empty when the other is.
\<close>

fun name_string :: "error_name \<Rightarrow> string" where
  "name_string ApiError = ''ApiError''"
| "name_string InvalidApiKeyError = ''InvalidApiKeyError''"
| "name_string NotFoundError = ''NotFoundError''"
| "name_string RateLimitError = ''RateLimitError''"
| "name_string GeminiSafetyError = ''GeminiSafetyError''"

definition error_toString :: "string \<Rightarrow> string \<Rightarrow> string" where
  "error_toString n msg = (if n = [] then msg else if msg = [] then n else n @ '': '' @ msg)"

fun toString :: "thrown \<Rightarrow> string" where
  "toString (Classified e) = error_toString (name_string (name e)) (message e)"
| "toString (Fault n msg) = error_toString n msg"

section \<open>Promises and HTTP responses\<close>

text \<open>
  \<open>await\<close>: go on with the value of a promise that is fulfilled, or reject with what a
  rejected one carries. \<open>all_of\<close> is \<open>Promise.all\<close>: the values of all, in order, or
  a rejection. Of several promises that reject, \<open>Promise.all\<close> passes on the one that
  rejects first in time; the model takes the first in the list.
\<close>

definition await :: "thrown + 'a \<Rightarrow> ('a \<Rightarrow> thrown + 'b) \<Rightarrow> thrown + 'b" where
  "await p f = (case p of Inl err \<Rightarrow> Inl err | Inr v \<Rightarrow> f v)"


text \<open>
  A response of \<open>fetch\<close>: its status, and what \<open>response.json()\<close> gives (\<open>None\<close> when
  the body is no JSON and the call rejects with a \<open>SyntaxError\<close>). The body is typed by
  the endpoint that sent it. A \<open>fetch\<close> that rejects (the transport failed) is \<open>Inl\<close>.
\<close>

record 'b response =
  status :: nat
  body :: "'b option"

definition ok :: "'b response \<Rightarrow> bool" where
  "ok r = (200 \<le> status r \<and> status r \<le> 299)"

definition json_SyntaxError :: thrown where
  "json_SyntaxError = Fault ''SyntaxError'' ''Unexpected token in JSON''"

definition json :: "'b response \<Rightarrow> thrown + 'b" where
  "json r = (case body r of None \<Rightarrow> Inl json_SyntaxError | Some b \<Rightarrow> Inr b)"

section \<open>Logging service\<close>

text \<open>
  The service holds its entries in an array object that \<open>push\<close> mutates in place and
  \<open>slice\<close> and the spread \<open>[...this.logs]\<close> copy, so arrays live in a store: a map from
  addresses to contents, with an allocation counter. \<open>logs\<close> is the address the private
  field points to. \<open>notified\<close> records the copy handed to the listeners at each
  notification. The timestamp of an entry is the clock reading passed in as \<open>now\<close>; the
  console output has no effect on the service and is left out. The fields \<open>message\<close> and
  \<open>context\<close> of an entry are \<open>entry_message\<close> and \<open>entry_context\<close> here.
\<close>

datatype LogLevel = INFO | DEBUG | WARN | ERROR

record 'c LogEntry =
  timestamp :: nat
  level :: LogLevel
  entry_message :: string
  entry_context :: "'c option"

type_synonym addr = nat

record 'c LoggingService =
  arrays :: "addr \<Rightarrow> 'c LogEntry list option"
  next_addr :: addr
  logs :: addr
  notified :: "addr list"

definition maxLogSize :: nat where
  "maxLogSize = 200"

definition new_LoggingService :: "'c LoggingService" where
  "new_LoggingService =
     \<lparr>arrays = (\<lambda>a. None)(0 := Some []), next_addr = 1, logs = 0, notified = []\<rparr>"

text \<open>The contents of the buffer: the array \<open>this.logs\<close> points to.\<close>

definition buffer :: "'c LoggingService \<Rightarrow> 'c LogEntry list" where
  "buffer s = (case arrays s (logs s) of None \<Rightarrow> [] | Some xs \<Rightarrow> xs)"

text \<open>Allocation of a new array object with the given contents.\<close>

definition alloc :: "'c LogEntry list \<Rightarrow> 'c LoggingService \<Rightarrow> addr \<times> 'c LoggingService" where
  "alloc xs s =
     (next_addr s, s\<lparr>arrays := (arrays s)(next_addr s := Some xs), next_addr := Suc (next_addr s)\<rparr>)"

text \<open>\<open>this.logs.push(newEntry)\<close>: the array is extended where it stands.\<close>

definition push :: "'c LogEntry \<Rightarrow> 'c LoggingService \<Rightarrow> 'c LoggingService" where
  "push e s = s\<lparr>arrays := (arrays s)(logs s := Some (buffer s @ [e]))\<rparr>"

text \<open>\<open>xs.slice(k)\<close> for \<open>0 \<le> k\<close>: a new array without the first \<open>k\<close> elements.\<close>

definition slice_from :: "nat \<Rightarrow> 'a list \<Rightarrow> 'a list" where
  "slice_from k xs = drop k xs"

definition getLogs :: "'c LoggingService \<Rightarrow> addr \<times> 'c LoggingService" where
  "getLogs s = alloc (buffer s) s"

definition notifyListeners :: "'c LoggingService \<Rightarrow> 'c LoggingService" where
  "notifyListeners s =
     (let (currentLogs, s') = getLogs s in s'\<lparr>notified := notified s' @ [currentLogs]\<rparr>)"

definition log :: "LogLevel \<Rightarrow> nat \<Rightarrow> string \<Rightarrow> 'c option \<Rightarrow> 'c LoggingService \<Rightarrow> 'c LoggingService" where
  "log lvl now msg ctx s =
     (let newEntry = \<lparr>timestamp = now, level = lvl, entry_message = msg, entry_context = ctx\<rparr>;
          s1 = push newEntry s;
          s2 = (if length (buffer s1) > maxLogSize
                then (let (a, s') = alloc (slice_from (length (buffer s1) - maxLogSize) (buffer s1)) s1
                      in s'\<lparr>logs := a\<rparr>)
                else s1)
      in notifyListeners s2)"




definition error :: "nat \<Rightarrow> string \<Rightarrow> 'c option \<Rightarrow> 'c LoggingService \<Rightarrow> 'c LoggingService" where
  "error = log ERROR"

definition clearLogs :: "'c LoggingService \<Rightarrow> 'c LoggingService" where
  "clearLogs s = notifyListeners (let (a, s') = alloc [] s in s'\<lparr>logs := a\<rparr>)"

text \<open>
  The buffer's array has been allocated: every state the service reaches from
  \<open>new_LoggingService\<close> satisfies this.
\<close>

definition allocated :: "'c LoggingService \<Rightarrow> bool" where
  "allocated s = (logs s < next_addr s \<and> arrays s (logs s) \<noteq> None)"


section \<open>JSON\<close>

text \<open>
  The values \<open>JSON.parse\<close> builds. A number keeps its text (the code never reads one),
  an object its members in the order of the text.
\<close>

datatype json_value =
  JNull | JBool bool | JNumber string | JString string
  | JArray "json_value list" | JObject "(string \<times> json_value) list"

fun is_string :: "json_value \<Rightarrow> bool" where
  "is_string (JString s) = True"
| "is_string v = False"

fun string_of :: "json_value \<Rightarrow> string" where
  "string_of (JString s) = s"
| "string_of v = []"

text \<open>
  \<open>JSON.parse\<close> is the platform's, so the functions that call it take it as the argument
  \<open>parse\<close> (\<open>None\<close> when it throws its \<open>SyntaxError\<close>). \<open>JSON_parse\<close> below is a
  reference parser for the JSON grammar (ECMA-404) over the modelled strings, used to run
  the code on concrete texts: a scanner, one character at a time, then a parser with a
  stack of the open arrays and objects, one token at a time. An escape \<open>\u\<close> that
  denotes a code unit above 255 leaves the modelled range, and \<open>JSON_parse\<close> gives \<open>None\<close>
  for it.
\<close>

datatype token =
  TLBracket | TRBracket | TLBrace | TRBrace | TComma | TColon | TValue json_value

datatype lex_mode =
  LStart | LString string | LEscape string | LUnicode string "nat list"
  | LNumber string | LLiteral string json_value

definition is_json_space :: "char \<Rightarrow> bool" where
  "is_json_space c = (charCode c \<in> {9, 10, 13, 32})"

definition is_number_char :: "char \<Rightarrow> bool" where
  "is_number_char c = (is_digit c \<or> c \<in> set ''+-.eE'')"

text \<open>The grammar of a number: \<open>-? (0 | [1-9][0-9]*) (. [0-9]+)? ([eE] [+-]? [0-9]+)?\<close>.\<close>

definition valid_exponent :: "string \<Rightarrow> bool" where
  "valid_exponent s =
     (s = [] \<or>
      (hd s \<in> set ''eE'' \<and>
       (let r = (if take 1 (tl s) = ''+'' \<or> take 1 (tl s) = ''-'' then tl (tl s) else tl s)
        in r \<noteq> [] \<and> list_all is_digit r)))"

definition valid_fraction :: "string \<Rightarrow> bool" where
  "valid_fraction s =
     (if take 1 s = ''.''
      then takeWhile is_digit (tl s) \<noteq> [] \<and> valid_exponent (dropWhile is_digit (tl s))
      else valid_exponent s)"

definition valid_number :: "string \<Rightarrow> bool" where
  "valid_number s =
     (let s1 = (if take 1 s = ''-'' then tl s else s);
          ip = takeWhile is_digit s1
      in (ip = ''0'' \<or> (ip \<noteq> [] \<and> hd ip \<noteq> CHR ''0'')) \<and> valid_fraction (dropWhile is_digit s1))"

text \<open>A character where a token may start.\<close>

definition lex_start :: "char \<Rightarrow> token list \<Rightarrow> (lex_mode \<times> token list) option" where
  "lex_start c toks =
     (if is_json_space c then Some (LStart, toks)
      else if c = CHR ''['' then Some (LStart, TLBracket # toks)
      else if c = CHR '']'' then Some (LStart, TRBracket # toks)
      else if c = CHR ''{'' then Some (LStart, TLBrace # toks)
      else if c = CHR ''}'' then Some (LStart, TRBrace # toks)
      else if c = CHR '','' then Some (LStart, TComma # toks)
      else if c = CHR '':'' then Some (LStart, TColon # toks)
      else if c = CHR 0x22 then Some (LString [], toks)
      else if c = CHR ''-'' \<or> is_digit c then Some (LNumber [c], toks)
      else if c = CHR ''t'' then Some (LLiteral ''rue'' (JBool True), toks)
      else if c = CHR ''f'' then Some (LLiteral ''alse'' (JBool False), toks)
      else if c = CHR ''n'' then Some (LLiteral ''ull'' JNull, toks)
      else None)"

text \<open>
  The character an escape stands for. Strings and numbers are gathered in reverse; the
  tokens too.
\<close>

definition escape_char :: "char \<Rightarrow> char option" where
  "escape_char c =
     (if c = CHR 0x22 then Some (CHR 0x22)
      else if c = CHR 0x5C then Some (CHR 0x5C)
      else if c = CHR ''/'' then Some (CHR ''/'')
      else if c = CHR ''b'' then Some (CHR 0x08)
      else if c = CHR ''f'' then Some (CHR 0x0C)
      else if c = CHR ''n'' then Some (CHR 0x0A)
      else if c = CHR ''r'' then Some (CHR 0x0D)
      else if c = CHR ''t'' then Some (CHR 0x09)
      else None)"

fun lex_step :: "lex_mode \<times> token list \<Rightarrow> char \<Rightarrow> (lex_mode \<times> token list) option" where
  "lex_step (LStart, toks) c = lex_start c toks"
| "lex_step (LString acc, toks) c =
     (if c = CHR 0x22 then Some (LStart, TValue (JString (rev acc)) # toks)
      else if c = CHR 0x5C then Some (LEscape acc, toks)
      else if charCode c < 32 then None
      else Some (LString (c # acc), toks))"
| "lex_step (LEscape acc, toks) c =
     (if c = CHR ''u'' then Some (LUnicode acc [], toks)
      else case escape_char c of
             None \<Rightarrow> None
           | Some e \<Rightarrow> Some (LString (e # acc), toks))"
| "lex_step (LUnicode acc ds, toks) c =
     (case hex_digit c of
        None \<Rightarrow> None
      | Some d \<Rightarrow>
          if length ds < 3 then Some (LUnicode acc (ds @ [d]), toks)
          else (let n = foldl (\<lambda>v x. 16 * v + x) 0 (ds @ [d])
                in if n < 256 then Some (LString (char_of n # acc), toks) else None))"
| "lex_step (LNumber acc, toks) c =
     (if is_number_char c then Some (LNumber (c # acc), toks)
      else if valid_number (rev acc) then lex_start c (TValue (JNumber (rev acc)) # toks)
      else None)"
| "lex_step (LLiteral [] v, toks) c = None"
| "lex_step (LLiteral (x # xs) v, toks) c =
     (if c \<noteq> x then None
      else if xs = [] then Some (LStart, TValue v # toks)
      else Some (LLiteral xs v, toks))"

fun lex :: "lex_mode \<times> token list \<Rightarrow> string \<Rightarrow> (lex_mode \<times> token list) option" where
  "lex st [] = Some st"
| "lex st (c # cs) = (case lex_step st c of None \<Rightarrow> None | Some st' \<Rightarrow> lex st' cs)"

definition tokenize :: "string \<Rightarrow> token list option" where
  "tokenize s =
     (case lex (LStart, []) s of
        Some (LStart, toks) \<Rightarrow> Some (rev toks)
      | Some (LNumber acc, toks) \<Rightarrow>
          if valid_number (rev acc) then Some (rev (TValue (JNumber (rev acc)) # toks)) else None
      | _ \<Rightarrow> None)"

text \<open>
  The parser's stack: an open array with its elements so far, an open object with its
  members so far, a key waiting for its value (above its object). Elements and members
  are gathered in reverse.
\<close>

datatype frame =
  FArray "json_value list" | FObject "(string \<times> json_value) list" | FKey string

datatype expect =
  WantValue | WantValueOrClose | WantKey | WantKeyOrClose | WantColon | WantCommaOrClose
  | Finished json_value

text \<open>A complete value goes to the innermost open array or pending key.\<close>

fun deliver :: "json_value \<Rightarrow> frame list \<Rightarrow> (expect \<times> frame list) option" where
  "deliver v [] = Some (Finished v, [])"
| "deliver v (FArray xs # st) = Some (WantCommaOrClose, FArray (v # xs) # st)"
| "deliver v (FKey k # FObject ms # st) = Some (WantCommaOrClose, FObject ((k, v) # ms) # st)"
| "deliver v st = None"

definition parse_value :: "bool \<Rightarrow> frame list \<Rightarrow> token \<Rightarrow> (expect \<times> frame list) option" where
  "parse_value may_close st tok =
     (case tok of
        TValue v \<Rightarrow> deliver v st
      | TLBracket \<Rightarrow> Some (WantValueOrClose, FArray [] # st)
      | TLBrace \<Rightarrow> Some (WantKeyOrClose, FObject [] # st)
      | TRBracket \<Rightarrow>
          (case st of
             FArray xs # st' \<Rightarrow> if may_close then deliver (JArray (rev xs)) st' else None
           | _ \<Rightarrow> None)
      | _ \<Rightarrow> None)"

definition parse_key :: "bool \<Rightarrow> frame list \<Rightarrow> token \<Rightarrow> (expect \<times> frame list) option" where
  "parse_key may_close st tok =
     (case tok of
        TValue (JString k) \<Rightarrow> Some (WantColon, FKey k # st)
      | TRBrace \<Rightarrow>
          (case st of
             FObject ms # st' \<Rightarrow> if may_close then deliver (JObject (rev ms)) st' else None
           | _ \<Rightarrow> None)
      | _ \<Rightarrow> None)"

definition parse_after :: "frame list \<Rightarrow> token \<Rightarrow> (expect \<times> frame list) option" where
  "parse_after st tok =
     (case (tok, st) of
        (TComma, FArray xs # st') \<Rightarrow> Some (WantValue, st)
      | (TComma, FObject ms # st') \<Rightarrow> Some (WantKey, st)
      | (TRBracket, FArray xs # st') \<Rightarrow> deliver (JArray (rev xs)) st'
      | (TRBrace, FObject ms # st') \<Rightarrow> deliver (JObject (rev ms)) st'
      | _ \<Rightarrow> None)"

fun parse_step :: "expect \<times> frame list \<Rightarrow> token \<Rightarrow> (expect \<times> frame list) option" where
  "parse_step (WantValue, st) tok = parse_value False st tok"
| "parse_step (WantValueOrClose, st) tok = parse_value True st tok"
| "parse_step (WantKey, st) tok = parse_key False st tok"
| "parse_step (WantKeyOrClose, st) tok = parse_key True st tok"
| "parse_step (WantColon, st) tok = (if tok = TColon then Some (WantValue, st) else None)"
| "parse_step (WantCommaOrClose, st) tok = parse_after st tok"
| "parse_step (Finished v, st) tok = None"

fun parse_tokens :: "expect \<times> frame list \<Rightarrow> token list \<Rightarrow> (expect \<times> frame list) option" where
  "parse_tokens st [] = Some st"
| "parse_tokens st (t # ts) = (case parse_step st t of None \<Rightarrow> None | Some st' \<Rightarrow> parse_tokens st' ts)"

definition JSON_parse :: "string \<Rightarrow> json_value option" where
  "JSON_parse s =
     (case tokenize s of
        None \<Rightarrow> None
      | Some toks \<Rightarrow>
          (case parse_tokens (WantValue, []) toks of
             Some (Finished v, []) \<Rightarrow> Some v
           | _ \<Rightarrow> None))"

section \<open>Media records (types.ts)\<close>

text \<open>
  A JavaScript number that holds an integer or \<open>NaN\<close>: what \<open>parseInt\<close> gives. A
  number is falsy when it is 0 or \<open>NaN\<close>.
\<close>

datatype js_number = NaN | Num int

fun truthy :: "js_number \<Rightarrow> bool" where
  "truthy NaN = False"
| "truthy (Num n) = (n \<noteq> 0)"

datatype media_type = movie | series

record Season =
  season_number :: int
  episode_count :: int
  season_name :: string

text \<open>\<open>MediaMetadata\<close>; an optional field that is absent is \<open>None\<close>.\<close>

record MediaMetadata =
  tmdbId :: "int option"
  imdbId :: "string option"
  title :: string
  year :: js_number
  overview :: string
  type :: media_type
  season :: "js_number option"
  episode :: "js_number option"
  episodeTitle :: "string option"
  cast :: "string list option"
  originCountry :: "string option"
  seasons :: "Season list option"

section \<open>Catalog service: handleApiResponse, getMetadata, getMovieDetails and searchByTitle\<close>

text \<open>
  The functions of the services report to the logging service as they go. Those calls
  change the log and nothing else, and the models of the functions leave them out.
\<close>

definition handleApiResponse :: "'b response \<Rightarrow> string \<Rightarrow> thrown + 'b" where
  "handleApiResponse r serviceName =
     (if ok r then json r
      else Inl (Classified
        (if status r = 401 then new_InvalidApiKeyError serviceName
         else if status r = 404 then
           new_NotFoundError (serviceName @ '' could not find the requested resource.'')
         else if status r = 429 then new_RateLimitError serviceName
         else new_ApiError (''An unexpected error occurred with '' @ serviceName
                @ '' (Status: '' @ show_nat (status r) @ '').''))))"

text \<open>
  \<open>parseInt\<close> with no radix: white space is skipped, then a sign, then \<open>0x\<close> selects
  base 16, then the longest run of digits is read; \<open>NaN\<close> when there is none. The value
  is the exact integer (a double rounds it above \<open>2^53\<close>).
\<close>

definition digit_value :: "char \<Rightarrow> nat" where
  "digit_value c = (case hex_digit c of None \<Rightarrow> 0 | Some d \<Rightarrow> d)"

definition parseInt :: "string \<Rightarrow> js_number" where
  "parseInt s =
     (let s1 = dropWhile is_space s;
          s2 = (if take 1 s1 = ''-'' \<or> take 1 s1 = ''+'' then tl s1 else s1);
          hex = (take 2 s2 = ''0x'' \<or> take 2 s2 = ''0X'');
          ds = (if hex then takeWhile (\<lambda>c. hex_digit c \<noteq> None) (drop 2 s2)
                else takeWhile is_digit s2);
          v = int (foldl (\<lambda>v c. (if hex then 16 else 10) * v + digit_value c) 0 ds)
      in if ds = [] then NaN else Num (if take 1 s1 = ''-'' then - v else v))"

text \<open>\<open>date ? parseInt(date.split('-')[0]) : 0\<close>: an absent or empty date gives 0.\<close>

definition year_of :: "string option \<Rightarrow> js_number" where
  "year_of d =
     (case d of
        None \<Rightarrow> Num 0
      | Some s \<Rightarrow> if s = [] then Num 0 else parseInt (takeWhile (\<lambda>c. c \<noteq> CHR ''-'') s))"

text \<open>
  The bodies the catalog sends, with the fields the code reads. A \<open>catalog_item\<close> is an
  element of \<open>movie_results\<close>, \<open>tv_results\<close> or \<open>results\<close>: a movie has a \<open>title\<close> and
  a \<open>release_date\<close>, a series a \<open>name\<close> and a \<open>first_air_date\<close>. In a
  \<open>details_body\<close> each production country is its \<open>iso_3166_1\<close> code, if it has one; in
  a \<open>credits_body\<close> each member of the cast is the actor's name. The fields \<open>id\<close>,
  \<open>title\<close>, \<open>name\<close> and \<open>overview\<close> of an item carry the prefix \<open>item_\<close> here.
\<close>

record catalog_item =
  item_id :: int
  item_title :: string
  item_name :: string
  release_date :: "string option"
  first_air_date :: "string option"
  item_overview :: string

record find_body =
  movie_results :: "catalog_item list"
  tv_results :: "catalog_item list"

record episode_body =
  episode_overview :: string
  episode_name :: string

record search_body =
  results :: "catalog_item list option"

record details_body =
  production_countries :: "string option list option"

record credits_body =
  credits_cast :: "string list option"

text \<open>
  The catalog behind the proxy, as functions from what a request's address is built from
  (the key first) to the outcome of its \<open>fetch\<close>: a response, or a rejection when the
  transport fails.
\<close>

record catalog =
  find_by_imdb :: "string \<Rightarrow> string \<Rightarrow> thrown + find_body response"
  episode_lookup :: "string \<Rightarrow> int \<Rightarrow> js_number \<Rightarrow> js_number \<Rightarrow> thrown + episode_body response"
  search_movie :: "string \<Rightarrow> string \<Rightarrow> thrown + search_body response"
  search_tv :: "string \<Rightarrow> string \<Rightarrow> thrown + search_body response"
  movie_details :: "string \<Rightarrow> int \<Rightarrow> thrown + details_body response"
  movie_credits :: "string \<Rightarrow> int \<Rightarrow> thrown + credits_body response"

definition movie_record :: "string \<Rightarrow> catalog_item \<Rightarrow> MediaMetadata" where
  "movie_record imdb m =
     \<lparr>tmdbId = Some (item_id m), imdbId = Some imdb, title = item_title m,
      year = year_of (release_date m), overview = item_overview m, type = movie,
      season = None, episode = None, episodeTitle = None, cast = None,
      originCountry = None, seasons = None\<rparr>"

definition series_record :: "string \<Rightarrow> catalog_item \<Rightarrow> MediaMetadata" where
  "series_record imdb s =
     \<lparr>tmdbId = Some (item_id s), imdbId = Some imdb, title = item_name s,
      year = year_of (first_air_date s), overview = item_overview s, type = series,
      season = None, episode = None, episodeTitle = None, cast = None,
      originCountry = None, seasons = None\<rparr>"

definition episode_record ::
  "string \<Rightarrow> catalog_item \<Rightarrow> js_number \<Rightarrow> js_number \<Rightarrow> episode_body \<Rightarrow> MediaMetadata" where
  "episode_record imdb s se ep episodeData =
     \<lparr>tmdbId = Some (item_id s), imdbId = Some imdb, title = item_name s,
      year = year_of (first_air_date s), overview = episode_overview episodeData, type = series,
      season = Some se, episode = Some ep, episodeTitle = Some (episode_name episodeData),
      cast = None, originCountry = None, seasons = None\<rparr>"

text \<open>
  \<open>getMetadata\<close>. The three object literals it returns are the three records above.
  \<open>season && episode\<close> holds when both are given and neither is 0 or \<open>NaN\<close>. The final
  \<open>return null\<close> is for a type that is neither \<open>movie\<close> nor \<open>series\<close>.
\<close>

definition getMetadata ::
  "catalog \<Rightarrow> media_type \<Rightarrow> string \<Rightarrow> js_number option \<Rightarrow> js_number option \<Rightarrow> string
     \<Rightarrow> thrown + MediaMetadata option" where
  "getMetadata cat ty imdb se ep apiKey =
     await (find_by_imdb cat apiKey imdb) (\<lambda>findResponse.
     await (handleApiResponse findResponse ''TMDB'') (\<lambda>findData.
       case ty of
         movie \<Rightarrow>
           (case movie_results findData of
              [] \<Rightarrow> Inl (Classified (new_NotFoundError (''Movie with IMDb ID '' @ imdb @ '' not found.'')))
            | m # ms \<Rightarrow> Inr (Some (movie_record imdb m)))
       | series \<Rightarrow>
           (case tv_results findData of
              [] \<Rightarrow> Inl (Classified (new_NotFoundError (''Series with IMDb ID '' @ imdb @ '' not found.'')))
            | s # ss \<Rightarrow>
                (case (se, ep) of
                   (Some sn, Some en) \<Rightarrow>
                     if truthy sn \<and> truthy en then
                       await (episode_lookup cat apiKey (item_id s) sn en) (\<lambda>episodeResponse.
                       await (handleApiResponse episodeResponse ''TMDB'') (\<lambda>episodeData.
                         Inr (Some (episode_record imdb s sn en episodeData))))
                     else Inr (Some (series_record imdb s))
                 | _ \<Rightarrow> Inr (Some (series_record imdb s))))))"





section \<open>Review synthesizer: extractJsonArray and generateReview\<close>

definition extractJsonArray :: "(string \<Rightarrow> json_value option) \<Rightarrow> string \<Rightarrow> json_value list option" where
  "extractJsonArray parse txt =
     (case (indexOf txt (CHR ''[''), lastIndexOf txt (CHR '']'')) of
        (Some startIndex, Some endIndex) \<Rightarrow>
          if endIndex < startIndex then None
          else (case parse (substring txt startIndex (endIndex + 1)) of
                  None \<Rightarrow> None
                | Some (JArray parsed) \<Rightarrow> Some parsed
                | Some v \<Rightarrow> None)
      | _ \<Rightarrow> None)"

text \<open>
  What the model call gives back when it completes: the candidate completions (the field
  may be absent) and the text of the first one (\<open>response.text\<close>, here
  \<open>response_text\<close>, absent when there is none). The call is a function of the record
  the prompt is built from and of the key; it completes with a response or rejects with
  the client's fault.
\<close>

record 'c GenerateContentResponse =
  candidates :: "'c list option"
  response_text :: "string option"

type_synonym 'c model_call = "MediaMetadata \<Rightarrow> string \<Rightarrow> thrown + 'c GenerateContentResponse"

definition blocked_message :: string where
  "blocked_message = ''Review generation was blocked. The content might be sensitive.''"

definition invalid_array_message :: string where
  "invalid_array_message = ''Gemini did not return a valid array of strings.''"

definition unexpected_message :: string where
  "unexpected_message = ''An unexpected error occurred while generating the review.''"

text \<open>
  The body of the \<open>try\<close> block, from the model call on: \<open>Inl\<close> is what it throws.
  Reading \<open>trim\<close> of an absent text is a \<open>TypeError\<close>.
\<close>

definition review_attempt ::
  "(string \<Rightarrow> json_value option) \<Rightarrow> 'c model_call \<Rightarrow> MediaMetadata \<Rightarrow> string \<Rightarrow> thrown + string list" where
  "review_attempt parse generateContent metadata geminiApiKey =
     (case generateContent metadata geminiApiKey of
        Inl fault \<Rightarrow> Inl fault
      | Inr response \<Rightarrow>
          if candidates response = None \<or> candidates response = Some []
          then Inl (Classified (new_GeminiSafetyError blocked_message))
          else (case response_text response of
                  None \<Rightarrow> Inl (Fault ''TypeError''
                            ''Cannot read properties of undefined (reading 'trim')'')
                | Some t \<Rightarrow>
                    (let rawText = trim t;
                         reviewPoints = extractJsonArray parse rawText
                     in case reviewPoints of
                          None \<Rightarrow> Inl (Classified (new_ApiError invalid_array_message))
                        | Some ps \<Rightarrow>
                            if list_all is_string ps then Inr (map string_of ps)
                            else Inl (Classified (new_ApiError invalid_array_message)))))"

text \<open>The \<open>catch\<close> block: what is thrown in place of what was caught.\<close>

definition reclassify :: "thrown \<Rightarrow> api_error" where
  "reclassify err =
     (let errorMessage = toLowerCase (toString err)
      in if includes_text errorMessage ''api key not valid'' then new_InvalidApiKeyError ''Gemini''
         else if includes_text errorMessage ''quota'' \<or> includes_text errorMessage ''rate limit''
         then new_RateLimitError ''Gemini''
         else (case err of
                 Classified e \<Rightarrow> e
               | Fault n msg \<Rightarrow> new_ApiError unexpected_message))"

definition generateReview ::
  "(string \<Rightarrow> json_value option) \<Rightarrow> 'c model_call \<Rightarrow> MediaMetadata \<Rightarrow> string \<Rightarrow> thrown + string list" where
  "generateReview parse generateContent metadata geminiApiKey =
     (if geminiApiKey = [] then Inl (Classified (new_InvalidApiKeyError ''Gemini (key not provided)''))
      else (case review_attempt parse generateContent metadata geminiApiKey of
              Inl err \<Rightarrow> Inl (Classified (reclassify err))
            | Inr reviewPoints \<Rightarrow> Inr reviewPoints))"

section \<open>Credentials: useApiKeys, apiKeyService and the configuration page\<close>

record ApiKeys =
  tmdb :: string
  tvdb :: string
  gemini :: string

text \<open>
  The services a credential is tested against, as functions from the key sent to what
  comes back: a response, or a rejection. \<open>storage_writable\<close> tells whether
  \<open>localStorage.setItem\<close> succeeds (it throws when the quota is exceeded or storage is
  denied).
\<close>

record key_services =
  tmdb_configuration :: "string \<Rightarrow> thrown + unit response"
  tvdb_login :: "string \<Rightarrow> thrown + unit response"
  gemini_hello :: "string \<Rightarrow> thrown + unit"
  storage_writable :: bool

definition testTmdbKey :: "key_services \<Rightarrow> string \<Rightarrow> bool" where
  "testTmdbKey env apiKey =
     (if trim apiKey = [] then False
      else case tmdb_configuration env apiKey of Inl err \<Rightarrow> False | Inr r \<Rightarrow> ok r)"

definition testTvdbKey :: "key_services \<Rightarrow> string \<Rightarrow> bool" where
  "testTvdbKey env apiKey =
     (if trim apiKey = [] then False
      else case tvdb_login env apiKey of Inl err \<Rightarrow> False | Inr r \<Rightarrow> ok r)"

definition testGeminiKey :: "key_services \<Rightarrow> string \<Rightarrow> bool" where
  "testGeminiKey env apiKey =
     (if trim apiKey = [] then False
      else case gemini_hello env apiKey of Inl err \<Rightarrow> False | Inr u \<Rightarrow> True)"

text \<open>
  The state of the configuration page with its hook: \<open>stored\<close> is the item of
  \<open>localStorage\<close> under the keys' name (the keys stand for the text \<open>JSON.stringify\<close>
  writes), \<open>keys\<close> the hook's state, then the three form fields and the page's flags.
  \<open>testResults\<close> is \<open>None\<close> for the empty object, else valid (\<open>True\<close>) or invalid per
  service. The timer that hides the success banner after three seconds is left out.
\<close>

record configure_page =
  stored :: "ApiKeys option"
  keys :: ApiKeys
  tmdbKey :: string
  tvdbKey :: string
  geminiKey :: string
  testResults :: "(bool \<times> bool \<times> bool) option"
  showSuccess :: bool
  isSavingAndTesting :: bool

definition saveKeys :: "key_services \<Rightarrow> ApiKeys \<Rightarrow> configure_page \<Rightarrow> bool \<times> configure_page" where
  "saveKeys env newKeys s =
     (if storage_writable env then (True, s\<lparr>stored := Some newKeys, keys := newKeys\<rparr>)
      else (False, s))"

definition handleSaveAndTest :: "key_services \<Rightarrow> configure_page \<Rightarrow> configure_page" where
  "handleSaveAndTest env s =
     (let s1 = s\<lparr>isSavingAndTesting := True, testResults := None, showSuccess := False\<rparr>;
          tmdbValid = testTmdbKey env (trim (tmdbKey s1));
          tvdbValid = testTvdbKey env (trim (tvdbKey s1));
          geminiValid = testGeminiKey env (trim (geminiKey s1));
          s2 = s1\<lparr>testResults := Some (tmdbValid, tvdbValid, geminiValid)\<rparr>;
          s3 = (if tmdbValid \<and> tvdbValid \<and> geminiValid then
                  (let (success, s') =
                     saveKeys env \<lparr>tmdb = trim (tmdbKey s2), tvdb = trim (tvdbKey s2),
                                   gemini = trim (geminiKey s2)\<rparr> s2
                   in if success then s'\<lparr>showSuccess := True\<rparr> else s')
                else s2)
      in s3\<lparr>isSavingAndTesting := False\<rparr>)"

section \<open>Protocol surface: StremioHandler\<close>

text \<open>
  The regular expression
  \<^verbatim>\<open>/\/stream\/(movie|series)\/(tt\d+)(?::(\d+):(\d+))?\.json/\<close>
  as a matcher. \<open>match_here\<close> matches it at the start of a text and gives the groups:
  the type, the identifier, and the season and episode when the optional group took part.
  A run \<open>\d+\<close> is followed by \<open>:\<close> or \<open>.\<close>, never by a digit, so it always holds
  the whole run of digits, and the optional group can only be left out where no \<open>:\<close>
  follows. The expression has no anchors: \<open>stream_match\<close> is \<open>pathname.match\<close>, the
  match at the first position where there is one.
\<close>

definition strip_prefix :: "string \<Rightarrow> string \<Rightarrow> string option" where
  "strip_prefix p s = (if take (length p) s = p then Some (drop (length p) s) else None)"

definition digits1 :: "string \<Rightarrow> (string \<times> string) option" where
  "digits1 s = (if takeWhile is_digit s = [] then None
                else Some (takeWhile is_digit s, dropWhile is_digit s))"

definition match_type :: "string \<Rightarrow> (media_type \<times> string) option" where
  "match_type s =
     (case strip_prefix ''movie'' s of
        Some r \<Rightarrow> Some (movie, r)
      | None \<Rightarrow> map_option (Pair series) (strip_prefix ''series'' s))"

definition match_season_episode :: "string \<Rightarrow> (string \<times> string \<times> string) option" where
  "match_season_episode s =
     (case strip_prefix '':'' s of
        None \<Rightarrow> None
      | Some s1 \<Rightarrow>
          (case digits1 s1 of
             None \<Rightarrow> None
           | Some (se, s2) \<Rightarrow>
               (case strip_prefix '':'' s2 of
                  None \<Rightarrow> None
                | Some s3 \<Rightarrow>
                    (case digits1 s3 of
                       None \<Rightarrow> None
                     | Some (ep, s4) \<Rightarrow> Some (se, ep, s4)))))"

definition match_here :: "string \<Rightarrow> (media_type \<times> string \<times> string option \<times> string option) option" where
  "match_here s =
     (case strip_prefix ''/stream/'' s of
        None \<Rightarrow> None
      | Some s1 \<Rightarrow>
     (case match_type s1 of
        None \<Rightarrow> None
      | Some (ty, s2) \<Rightarrow>
     (case strip_prefix ''/tt'' s2 of
        None \<Rightarrow> None
      | Some s3 \<Rightarrow>
     (case digits1 s3 of
        None \<Rightarrow> None
      | Some (ds, s4) \<Rightarrow>
          (case match_season_episode s4 of
             Some (se, ep, s5) \<Rightarrow>
               if strip_prefix ''.json'' s5 \<noteq> None then Some (ty, ''tt'' @ ds, Some se, Some ep)
               else if strip_prefix ''.json'' s4 \<noteq> None then Some (ty, ''tt'' @ ds, None, None)
               else None
           | None \<Rightarrow>
               if strip_prefix ''.json'' s4 \<noteq> None then Some (ty, ''tt'' @ ds, None, None)
               else None)))))"

fun stream_match :: "string \<Rightarrow> (media_type \<times> string \<times> string option \<times> string option) option" where
  "stream_match [] = match_here []"
| "stream_match (c # cs) =
     (case match_here (c # cs) of Some m \<Rightarrow> Some m | None \<Rightarrow> stream_match cs)"

text \<open>
  The pseudo-identifier. The reducer \<open>(hash * 31 + char.charCodeAt(0)) | 0\<close> keeps a
  signed 32-bit integer: the sum is exact in a double (it stays below \<open>2^36\<close>) and
  \<open>| 0\<close> wraps it, which is the arithmetic of a 32-bit word read as signed.
  \<open>toString(16)\<close> of a negative number is a minus sign and the digits of its magnitude.
\<close>

definition hash_step :: "32 word \<Rightarrow> char \<Rightarrow> 32 word" where
  "hash_step hash c = hash * 31 + of_nat (charCode c)"

definition rolling_hash :: "string \<Rightarrow> int" where
  "rolling_hash s = sint (foldl hash_step 0 s)"

fun hex_nat :: "nat \<Rightarrow> string" where
  "hex_nat n =
     (if n < 16 then [digit_char n]
      else hex_nat (n div 16) @ [digit_char (n mod 16)])"

declare hex_nat.simps [simp del]

definition toString16 :: "int \<Rightarrow> string" where
  "toString16 n = (if n < 0 then ''-'' @ hex_nat (nat (- n)) else hex_nat (nat n))"

definition padStart :: "nat \<Rightarrow> char \<Rightarrow> string \<Rightarrow> string" where
  "padStart n c s = replicate (n - length s) c @ s"

definition or_empty :: "string option \<Rightarrow> string" where
  "or_empty s = (case s of None \<Rightarrow> [] | Some t \<Rightarrow> t)"

definition infoHash_of :: "string \<Rightarrow> string option \<Rightarrow> string option \<Rightarrow> string" where
  "infoHash_of imdb se ep =
     take 40 (padStart 40 (CHR ''0'') (toString16 (rolling_hash (imdb @ or_empty se @ or_empty ep))))"

text \<open>
  The descriptor: its entries, each with a display name, a title, the pseudo-identifier
  when it has one, and the marker \<open>notPlayable\<close>. The two display names are \<open>Error\<close> and
  \<open>Gemini Review\<close> followed by the sparkles sign, which lies outside the modelled code
  units, so the names are the constructors of a type. The fields \<open>name\<close> and \<open>title\<close>
  of an entry are \<open>entry_name\<close> and \<open>entry_title\<close> here.
\<close>

datatype display_name = Error_name | Gemini_Review_name

record stream_entry =
  entry_name :: display_name
  entry_title :: string
  infoHash :: "string option"
  notPlayable :: bool

definition createErrorStream :: "string \<Rightarrow> stream_entry list" where
  "createErrorStream msg =
     [\<lparr>entry_name = Error_name, entry_title = msg, infoHash = None, notPlayable = True\<rparr>]"

text \<open>\<open>xs.join(sep)\<close>.\<close>

fun join :: "string \<Rightarrow> string list \<Rightarrow> string" where
  "join sep [] = []"
| "join sep [x] = x"
| "join sep (x # y # ys) = x @ sep @ join sep (y # ys)"

definition areKeysSetup :: "ApiKeys \<Rightarrow> bool" where
  "areKeysSetup ks = (trim (tmdb ks) \<noteq> [] \<and> trim (tvdb ks) \<noteq> [] \<and> trim (gemini ks) \<noteq> [])"

text \<open>\<open>group ? parseInt(group) : undefined\<close>.\<close>

definition group_number :: "string option \<Rightarrow> js_number option" where
  "group_number g =
     (case g of None \<Rightarrow> None | Some s \<Rightarrow> if s = [] then None else Some (parseInt s))"

text \<open>
  The body of the \<open>try\<close> block for a path that matched, and \<open>handleRequest\<close>: the
  result is the response it sets, \<open>None\<close> when it returns without setting one. What the
  \<open>try\<close> block throws is caught and becomes an error descriptor.
\<close>

definition stream_attempt ::
  "(string \<Rightarrow> json_value option) \<Rightarrow> catalog \<Rightarrow> 'c model_call \<Rightarrow> ApiKeys
     \<Rightarrow> media_type \<Rightarrow> string \<Rightarrow> string option \<Rightarrow> string option \<Rightarrow> thrown + stream_entry list" where
  "stream_attempt parse cat generateContent ks ty imdb se ep =
     await (getMetadata cat ty imdb (group_number se) (group_number ep) (tmdb ks)) (\<lambda>found.
       case found of
         None \<Rightarrow> Inr (createErrorStream ''Metadata not found for this item.'')
       | Some metadata \<Rightarrow>
           await (generateReview parse generateContent metadata (gemini ks)) (\<lambda>reviewPoints.
             if reviewPoints = [] then Inr (createErrorStream ''Could not generate review for this item.'')
             else Inr [\<lparr>entry_name = Gemini_Review_name,
                        entry_title = join [CHR 0x0A] reviewPoints,
                        infoHash = Some (infoHash_of imdb se ep),
                        notPlayable = True\<rparr>]))"

definition handleRequest ::
  "(string \<Rightarrow> json_value option) \<Rightarrow> catalog \<Rightarrow> 'c model_call
     \<Rightarrow> string \<Rightarrow> bool \<Rightarrow> ApiKeys \<Rightarrow> stream_entry list option" where
  "handleRequest parse cat generateContent pathname isReady ks =
     (if strip_prefix ''/stream/'' pathname = None then None
      else if \<not> isReady then None
      else if \<not> areKeysSetup ks
      then Some (createErrorStream ''API keys not configured. Please configure the addon.'')
      else (case stream_match pathname of
              Some (ty, imdb, se, ep) \<Rightarrow>
                (case stream_attempt parse cat generateContent ks ty imdb se ep of
                   Inr descriptor \<Rightarrow> Some descriptor
                 | Inl (Classified e) \<Rightarrow> Some (createErrorStream (message e))
                 | Inl (Fault n msg) \<Rightarrow> Some (createErrorStream ''An unknown error occurred.''))
            | None \<Rightarrow> Some (createErrorStream ''Invalid request format.'')))"

section \<open>Sample inputs\<close>


text \<open>An environment in which every key but \<open>bad\<close> is accepted, and a page to save.\<close>

definition accepting :: key_services where
  "accepting =
     \<lparr>tmdb_configuration = (\<lambda>k. Inr \<lparr>status = 200, body = Some ()\<rparr>),
      tvdb_login = (\<lambda>k. if k = ''bad'' then Inr \<lparr>status = 401, body = Some ()\<rparr>
                         else Inr \<lparr>status = 200, body = Some ()\<rparr>),
      gemini_hello = (\<lambda>k. Inr ()),
      storage_writable = True\<rparr>"

definition page0 :: configure_page where
  "page0 =
     \<lparr>stored = Some \<lparr>tmdb = ''t0'', tvdb = ''v0'', gemini = ''g0''\<rparr>,
      keys = \<lparr>tmdb = ''t0'', tvdb = ''v0'', gemini = ''g0''\<rparr>,
      tmdbKey = '' t1'', tvdbKey = ''v1 '', geminiKey = ''g1'',
      testResults = None, showSuccess = False, isSavingAndTesting = False\<rparr>"

text \<open>
  A record to generate a review for, a model call that completes with one candidate and
  the given text, and one that completes with no candidate.
\<close>

definition the_matrix :: MediaMetadata where
  "the_matrix =
     \<lparr>tmdbId = Some 603, imdbId = Some ''tt0133093'', title = ''The Matrix'', year = Num 1999,
      overview = ''A hacker learns the truth.'', type = movie, season = None, episode = None,
      episodeTitle = None, cast = None, originCountry = None, seasons = None\<rparr>"

definition replying :: "string \<Rightarrow> unit model_call" where
  "replying t = (\<lambda>metadata apiKey. Inr \<lparr>candidates = Some [()], response_text = Some t\<rparr>)"

definition blocking :: "unit model_call" where
  "blocking = (\<lambda>metadata apiKey. Inr \<lparr>candidates = Some [], response_text = None\<rparr>)"

text \<open>A catalog with one movie and one series, whose movie details answer with status 500.\<close>

definition matrix_item :: catalog_item where
  "matrix_item =
     \<lparr>item_id = 603, item_title = ''The Matrix'', item_name = [],
      release_date = Some ''1999-03-30'', first_air_date = None,
      item_overview = ''A hacker learns the truth.''\<rparr>"

definition bb_item :: catalog_item where
  "bb_item =
     \<lparr>item_id = 1396, item_title = [], item_name = ''Breaking Bad'',
      release_date = None, first_air_date = Some ''2008-01-20'',
      item_overview = ''A teacher turns to crime.''\<rparr>"

definition demo_catalog :: catalog where
  "demo_catalog =
     \<lparr>find_by_imdb = (\<lambda>k i. Inr \<lparr>status = 200, body = Some
          \<lparr>movie_results = (if i = ''tt0133093'' then [matrix_item] else []),
           tv_results = (if i = ''tt0903747'' then [bb_item] else [])\<rparr>\<rparr>),
      episode_lookup = (\<lambda>k i s e. Inr \<lparr>status = 200, body = Some
          \<lparr>episode_overview = ''Walter White starts out.'', episode_name = ''Pilot''\<rparr>\<rparr>),
      search_movie = (\<lambda>k t. Inr \<lparr>status = 200, body = Some \<lparr>results = Some [matrix_item]\<rparr>\<rparr>),
      search_tv = (\<lambda>k t. Inr \<lparr>status = 200, body = Some \<lparr>results = Some [bb_item]\<rparr>\<rparr>),
      movie_details = (\<lambda>k i. Inr \<lparr>status = 500, body = None\<rparr>),
      movie_credits = (\<lambda>k i. Inr \<lparr>status = 200, body = Some
          \<lparr>credits_cast = Some [''Keanu Reeves'']\<rparr>\<rparr>)\<rparr>"




text \<open>Keys that are configured, keys that are not, and a review of eight lines.\<close>

definition configured :: ApiKeys where
  "configured = \<lparr>tmdb = ''t'', tvdb = ''v'', gemini = ''g''\<rparr>"

definition unconfigured :: ApiKeys where
  "unconfigured = \<lparr>tmdb = ''t'', tvdb = ''v'', gemini = []\<rparr>"

definition eight_points :: "string list" where
  "eight_points = [''plot'', ''look'', ''cast'', ''score'', ''pace'', ''world'', ''theme'', ''verdict'']"

definition eight_lines :: string where
  \<open>eight_lines = ''["plot","look","cast","score","pace","world","theme","verdict"]''\<close>

section \<open>Verified properties\<close>

subsection \<open>Catalog responses\<close>

text \<open>
  Claim C6. A catalog response whose status is not 2xx is turned into a classified error
  whose kind depends on the status alone: 401 gives \<open>InvalidApiKeyError\<close>
  (InvalidCredential), 404 \<open>NotFoundError\<close> (NotFound), 429 \<open>RateLimitError\<close>
  (RateLimited), every other status \<open>ApiError\<close> (Generic).
\<close>

theorem handleApiResponse_status_kind:
  "\<not> ok r \<Longrightarrow>
   \<exists>e. handleApiResponse r serviceName = Inl (Classified e) \<and>
       name e = (if status r = 401 then InvalidApiKeyError
                 else if status r = 404 then NotFoundError
                 else if status r = 429 then RateLimitError
                 else ApiError)"
  by (simp add: handleApiResponse_def new_InvalidApiKeyError_def new_NotFoundError_def
      new_RateLimitError_def new_ApiError_def)

theorem handleApiResponse_status_kind_witness:
  "\<not> ok \<lparr>status = 401, body = Some ()\<rparr> \<and>
   handleApiResponse \<lparr>status = 401, body = Some ()\<rparr> ''TMDB''
     = Inl (Classified \<lparr>name = InvalidApiKeyError,
          message = ''Invalid API key for TMDB. Please check it in the Configuration page.''\<rparr>) \<and>
   \<not> ok \<lparr>status = 503, body = Some ()\<rparr> \<and>
   handleApiResponse \<lparr>status = 503, body = Some ()\<rparr> ''TMDB''
     = Inl (Classified \<lparr>name = ApiError,
          message = ''An unexpected error occurred with TMDB (Status: 503).''\<rparr>)"
  using handleApiResponse_status_kind [of "\<lparr>status = 401, body = Some ()\<rparr>" "''TMDB''"]
    handleApiResponse_status_kind [of "\<lparr>status = 503, body = Some ()\<rparr>" "''TMDB''"]
  by (simp add: ok_def handleApiResponse_def new_InvalidApiKeyError_def new_ApiError_def show_nat.simps digit_char_def)

subsection \<open>Logging service\<close>


lemma buffer_alloc: "logs s < next_addr s \<Longrightarrow> buffer (snd (alloc xs s)) = buffer s"
  by (simp add: alloc_def buffer_def)


lemma allocated_notifyListeners: "allocated s \<Longrightarrow> allocated (notifyListeners s)"
  by (simp add: notifyListeners_def getLogs_def alloc_def allocated_def)

lemma allocated_push: "allocated s \<Longrightarrow> allocated (push e s)"
  by (simp add: push_def allocated_def)



lemma allocated_new_LoggingService: "allocated new_LoggingService"
  by (simp add: allocated_def new_LoggingService_def)




subsection \<open>Saving the credentials\<close>

lemma trim_ex: "trim '' t1'' = ''t1''" "trim ''v1 '' = ''v1''" "trim ''g1'' = ''g1''" "trim ''bad'' = ''bad''"
  "trim ''t1'' = ''t1''" "trim ''v1'' = ''v1''"
  by (simp_all add: trim_def is_space_def charCode_def)

lemma tests_page0:
  "testTmdbKey accepting ''t1''" "testTvdbKey accepting ''v1''" "testGeminiKey accepting ''g1''"
  "\<not> testTvdbKey accepting ''bad''" "storage_writable accepting"
  by (simp_all add: accepting_def testTmdbKey_def testTvdbKey_def testGeminiKey_def trim_ex ok_def)

text \<open>
  Claim C9. \<open>handleSaveAndTest\<close> writes the three keys to storage only when the three
  tests all return true: when one of them fails, the stored keys (and the hook's keys) are
  what they were, and when the stored keys have changed, all three tests passed and the
  trimmed keys of the form are what is stored.
\<close>

theorem save_all_or_nothing:
  fixes env s
  defines "tmdbValid \<equiv> testTmdbKey env (trim (tmdbKey s))"
    and "tvdbValid \<equiv> testTvdbKey env (trim (tvdbKey s))"
    and "geminiValid \<equiv> testGeminiKey env (trim (geminiKey s))"
  shows "(\<not> (tmdbValid \<and> tvdbValid \<and> geminiValid) \<longrightarrow>
            stored (handleSaveAndTest env s) = stored s \<and> keys (handleSaveAndTest env s) = keys s) \<and>
         (stored (handleSaveAndTest env s) \<noteq> stored s \<longrightarrow>
            tmdbValid \<and> tvdbValid \<and> geminiValid \<and>
            stored (handleSaveAndTest env s) =
              Some \<lparr>tmdb = trim (tmdbKey s), tvdb = trim (tvdbKey s), gemini = trim (geminiKey s)\<rparr>)"
  unfolding tmdbValid_def tvdbValid_def geminiValid_def
  by (simp add: handleSaveAndTest_def Let_def saveKeys_def)

theorem save_all_or_nothing_witness:
  "\<not> (testTmdbKey accepting (trim (tmdbKey (page0\<lparr>tvdbKey := ''bad''\<rparr>))) \<and>
       testTvdbKey accepting (trim (tvdbKey (page0\<lparr>tvdbKey := ''bad''\<rparr>))) \<and>
       testGeminiKey accepting (trim (geminiKey (page0\<lparr>tvdbKey := ''bad''\<rparr>)))) \<and>
   stored (handleSaveAndTest accepting (page0\<lparr>tvdbKey := ''bad''\<rparr>))
     = Some \<lparr>tmdb = ''t0'', tvdb = ''v0'', gemini = ''g0''\<rparr> \<and>
   stored (handleSaveAndTest accepting page0) \<noteq> stored page0 \<and>
   stored (handleSaveAndTest accepting page0)
     = Some \<lparr>tmdb = ''t1'', tvdb = ''v1'', gemini = ''g1''\<rparr>"
proof -
  have f: "tmdbKey page0 = '' t1''" "tvdbKey page0 = ''v1 ''" "geminiKey page0 = ''g1''"
    "stored page0 = Some \<lparr>tmdb = ''t0'', tvdb = ''v0'', gemini = ''g0''\<rparr>"
    by (simp_all add: page0_def)
  have a: "\<not> (testTmdbKey accepting (trim (tmdbKey (page0\<lparr>tvdbKey := ''bad''\<rparr>))) \<and>
       testTvdbKey accepting (trim (tvdbKey (page0\<lparr>tvdbKey := ''bad''\<rparr>))) \<and>
       testGeminiKey accepting (trim (geminiKey (page0\<lparr>tvdbKey := ''bad''\<rparr>))))"
    by (simp add: trim_ex tests_page0)
  have b: "stored (handleSaveAndTest accepting (page0\<lparr>tvdbKey := ''bad''\<rparr>))
     = Some \<lparr>tmdb = ''t0'', tvdb = ''v0'', gemini = ''g0''\<rparr>"
    using save_all_or_nothing [of accepting "page0\<lparr>tvdbKey := ''bad''\<rparr>"] a
    by (simp add: f)
  have c: "stored (handleSaveAndTest accepting page0) \<noteq> stored page0"
    by (simp add: handleSaveAndTest_def Let_def saveKeys_def f trim_ex tests_page0)
  have d: "stored (handleSaveAndTest accepting page0)
     = Some \<lparr>tmdb = ''t1'', tvdb = ''v1'', gemini = ''g1''\<rparr>"
    using save_all_or_nothing [of accepting page0] c
    by (simp add: f trim_ex)
  from a b c d show ?thesis by blast
qed

subsection \<open>Review synthesizer\<close>

lemma indexOf_None: "indexOf xs c = None \<longleftrightarrow> c \<notin> set xs"
  by (induction xs) auto

lemma indexOf_append_first: "c \<notin> set pre \<Longrightarrow> indexOf (pre @ c # rest) c = Some (length pre)"
  by (induction pre) auto

lemma indexOf_Some:
  "indexOf xs c = Some i \<Longrightarrow> i < length xs \<and> xs ! i = c \<and> c \<notin> set (take i xs)"
proof (induction xs arbitrary: i)
  case Nil
  then show ?case by simp
next
  case (Cons x xs)
  show ?case
  proof (cases "x = c")
    case True
    with Cons.prems show ?thesis by simp
  next
    case False
    with Cons.prems obtain j where j: "indexOf xs c = Some j" "i = Suc j"
      by auto
    from Cons.IH [OF j(1)] False j(2) show ?thesis by simp
  qed
qed

lemma lastIndexOf_None: "lastIndexOf xs c = None \<longleftrightarrow> c \<notin> set xs"
  by (simp add: lastIndexOf_def indexOf_None)

lemma lastIndexOf_append_last:
  assumes "c \<notin> set post"
  shows "lastIndexOf (xs @ c # post) c = Some (length xs)"
proof -
  have "indexOf (rev post @ c # rev xs) c = Some (length (rev post))"
    by (rule indexOf_append_first) (simp add: assms)
  then show ?thesis by (simp add: lastIndexOf_def)
qed

lemma lastIndexOf_Some:
  assumes "lastIndexOf xs c = Some j"
  shows "j < length xs \<and> xs ! j = c \<and> c \<notin> set (drop (Suc j) xs)"
proof -
  from assms obtain i where i: "indexOf (rev xs) c = Some i" "j = length xs - 1 - i"
    by (auto simp: lastIndexOf_def)
  from indexOf_Some [OF i(1)]
  have a: "i < length xs" "rev xs ! i = c" "c \<notin> set (take i (rev xs))"
    by simp_all
  have j: "j < length xs" using a(1) i(2) by simp
  have "rev xs ! i = xs ! j"
    using a(1) i(2) by (simp add: rev_nth)
  moreover have "take i (rev xs) = rev (drop (Suc j) xs)"
    using a(1) i(2) by (simp add: take_rev Suc_diff_Suc)
  ultimately show ?thesis using a j by simp
qed

lemma substring_middle:
  "substring (pre @ mid @ post) (length pre) (length pre + length mid) = mid"
  by (simp add: substring_def Let_def min_def max_def)



lemma extractJsonArray_between:
  assumes "CHR ''['' \<notin> set pre" "CHR '']'' \<notin> set post"
  shows "extractJsonArray parse (pre @ ''['' @ mid @ '']'' @ post)
           = (case parse (''['' @ mid @ '']'') of Some (JArray xs) \<Rightarrow> Some xs | _ \<Rightarrow> None)"
proof -
  let ?t = "pre @ ''['' @ mid @ '']'' @ post"
  have i: "indexOf ?t (CHR ''['') = Some (length pre)"
    using indexOf_append_first [OF assms(1), of "mid @ '']'' @ post"] by simp
  have j: "lastIndexOf ?t (CHR '']'') = Some (length pre + 1 + length mid)"
    using lastIndexOf_append_last [OF assms(2), of "pre @ ''['' @ mid"] by simp
  have "substring (pre @ (''['' @ mid @ '']'') @ post) (length pre) (length pre + length (''['' @ mid @ '']''))
          = ''['' @ mid @ '']''"
    by (rule substring_middle)
  then have s: "substring ?t (length pre) (length pre + 1 + length mid + 1) = ''['' @ mid @ '']''"
    by (simp add: add.assoc)
  show ?thesis
    by (simp only: extractJsonArray_def i j s prod.case option.case)
       (simp split: option.split json_value.split)
qed

lemma extractJsonArray_Some_pair:
  assumes "extractJsonArray parse txt = Some ps"
  shows "\<exists>pre mid post. txt = pre @ ''['' @ mid @ '']'' @ post"
proof -
  from assms obtain i j where i: "indexOf txt (CHR ''['') = Some i"
    and j: "lastIndexOf txt (CHR '']'') = Some j" and le: "\<not> j < i"
    by (auto simp: extractJsonArray_def split: option.splits if_splits)
  from indexOf_Some [OF i] have a: "i < length txt" "txt ! i = CHR ''[''" by simp_all
  from lastIndexOf_Some [OF j] have b: "j < length txt" "txt ! j = CHR '']''" by simp_all
  from a(2) b(2) have "i \<noteq> j" by auto
  with le have lt: "i < j" by simp
  have "txt = take i txt @ txt ! i # drop (Suc i) txt"
    using a(1) by (simp add: id_take_nth_drop)
  moreover have "drop (Suc i) txt = take (j - Suc i) (drop (Suc i) txt)
      @ (drop (Suc i) txt) ! (j - Suc i) # drop (Suc (j - Suc i)) (drop (Suc i) txt)"
    using b(1) lt by (intro id_take_nth_drop) simp
  moreover have "(drop (Suc i) txt) ! (j - Suc i) = txt ! j"
    using b(1) lt by simp
  ultimately have "txt = take i txt @ ''['' @ take (j - Suc i) (drop (Suc i) txt) @ '']''
      @ drop (Suc (j - Suc i)) (drop (Suc i) txt)"
    using a(2) b(2) by simp
  then show ?thesis by blast
qed

lemma extractJsonArray_no_pair:
  "\<not> (\<exists>pre mid post. txt = pre @ ''['' @ mid @ '']'' @ post) \<Longrightarrow> extractJsonArray parse txt = None"
  using extractJsonArray_Some_pair [of parse "txt"] by (cases "extractJsonArray parse txt") auto

lemma extract_clean:
  \<open>extractJsonArray JSON_parse ''["a","b"]'' = Some [JString ''a'', JString ''b'']\<close>
  by code_simp

lemma extract_noise:
  \<open>extractJsonArray JSON_parse ''noise [ "a", "b" ] trailing'' = Some [JString ''a'', JString ''b'']\<close>
  by code_simp


lemma reclassify_safety:
  "reclassify (Classified (new_GeminiSafetyError blocked_message)) = new_GeminiSafetyError blocked_message"
  by code_simp

lemma reclassify_invalid_array:
  "reclassify (Classified (new_ApiError invalid_array_message)) = new_ApiError invalid_array_message"
  by code_simp

text \<open>
  Claim C2. When the model call completes with no candidate (the list absent or empty),
  \<open>generateReview\<close> fails with a \<open>GeminiSafetyError\<close> (ContentBlocked), never with
  the base \<open>ApiError\<close> (Generic): the \<open>try\<close> block throws it and the \<open>catch\<close> block
  throws the same error again.
\<close>

theorem zero_candidates_content_blocked:
  assumes "geminiApiKey \<noteq> []"
    and "generateContent metadata geminiApiKey = Inr response"
    and "candidates response = None \<or> candidates response = Some []"
  shows "\<exists>e. generateReview parse generateContent metadata geminiApiKey = Inl (Classified e) \<and>
           name e = GeminiSafetyError \<and> name e \<noteq> ApiError \<and> message e = blocked_message \<and>
           review_attempt parse generateContent metadata geminiApiKey = Inl (Classified e) \<and>
           reclassify (Classified e) = e"
proof -
  let ?e = "new_GeminiSafetyError blocked_message"
  have a: "review_attempt parse generateContent metadata geminiApiKey = Inl (Classified ?e)"
    using assms(2,3) by (auto simp: review_attempt_def)
  have g: "generateReview parse generateContent metadata geminiApiKey = Inl (Classified ?e)"
    using assms(1) by (simp add: generateReview_def a reclassify_safety)
  have n: "name ?e = GeminiSafetyError" "message ?e = blocked_message"
    by (simp_all add: new_GeminiSafetyError_def)
  from a g n reclassify_safety show ?thesis by auto
qed

theorem zero_candidates_content_blocked_witness:
  "''key'' \<noteq> [] \<and>
   blocking the_matrix ''key'' = Inr \<lparr>candidates = Some [], response_text = None\<rparr> \<and>
   generateReview JSON_parse blocking the_matrix ''key''
     = Inl (Classified \<lparr>name = GeminiSafetyError,
          message = ''Review generation was blocked. The content might be sensitive.''\<rparr>)"
proof -
  have k: "''key'' \<noteq> []" by simp
  have b: "blocking the_matrix ''key'' = Inr \<lparr>candidates = Some [], response_text = None\<rparr>"
    by (simp add: blocking_def)
  have c: "candidates \<lparr>candidates = Some ([] :: unit list), response_text = None\<rparr> = None \<or>
           candidates \<lparr>candidates = Some ([] :: unit list), response_text = None\<rparr> = Some []"
    by simp
  from zero_candidates_content_blocked [where geminiApiKey = "''key''" and generateContent = blocking
      and metadata = the_matrix and parse = JSON_parse, OF k b c]
  obtain e where "generateReview JSON_parse blocking the_matrix ''key'' = Inl (Classified e)"
    "name e = GeminiSafetyError" "message e = blocked_message"
    by blast
  then have "generateReview JSON_parse blocking the_matrix ''key''
     = Inl (Classified \<lparr>name = GeminiSafetyError,
          message = ''Review generation was blocked. The content might be sensitive.''\<rparr>)"
    by (cases e) (simp add: blocked_message_def)
  with k b show ?thesis by simp
qed


lemma review_attempt_invalid:
  assumes "generateContent metadata geminiApiKey = Inr response"
    and "candidates response = Some (c # cs)"
    and "response_text response = Some t"
    and "extractJsonArray parse (trim t) = None \<or>
         (\<exists>ps. extractJsonArray parse (trim t) = Some ps \<and> \<not> list_all is_string ps)"
  shows "review_attempt parse generateContent metadata geminiApiKey
           = Inl (Classified (new_ApiError invalid_array_message))"
  using assms by (auto simp: review_attempt_def Let_def)

text \<open>
  Claim C3. \<open>extractJsonArray\<close> parses the text from the first \<open>[\<close> to the last
  \<open>]\<close>, both included, whatever stands before and after; a text with no \<open>[\<close>
  followed by a \<open>]\<close> gives no array. With the reference parser the clean text and the
  text with noise around it both give the array of \<open>a\<close> and \<open>b\<close>. When no array is
  extracted, or an element is not a string, \<open>generateReview\<close> fails with the base
  \<open>ApiError\<close> (Generic) and the message that no valid array of strings was returned.
\<close>

theorem extractJsonArray_first_to_last_bracket:
  \<open>(CHR ''['' \<notin> set pre \<and> CHR '']'' \<notin> set post \<longrightarrow>
      extractJsonArray parse (pre @ ''['' @ mid @ '']'' @ post)
        = (case parse (''['' @ mid @ '']'') of Some (JArray xs) \<Rightarrow> Some xs | _ \<Rightarrow> None)) \<and>
   ((\<nexists>pre mid post. raw = pre @ ''['' @ mid @ '']'' @ post) \<longrightarrow>
      extractJsonArray parse raw = None) \<and>
   extractJsonArray JSON_parse ''["a","b"]'' = Some [JString ''a'', JString ''b''] \<and>
   extractJsonArray JSON_parse ''noise [ "a", "b" ] trailing'' = Some [JString ''a'', JString ''b''] \<and>
   (geminiApiKey \<noteq> [] \<and> generateContent metadata geminiApiKey = Inr response \<and>
    candidates response = Some (c # cs) \<and> response_text response = Some t \<and>
    (extractJsonArray parse (trim t) = None \<or>
     (\<exists>ps. extractJsonArray parse (trim t) = Some ps \<and> \<not> list_all is_string ps)) \<longrightarrow>
      generateReview parse generateContent metadata geminiApiKey
        = Inl (Classified \<lparr>name = ApiError, message = ''Gemini did not return a valid array of strings.''\<rparr>))\<close>
proof -
  have a: "CHR ''['' \<notin> set pre \<and> CHR '']'' \<notin> set post \<longrightarrow>
      extractJsonArray parse (pre @ ''['' @ mid @ '']'' @ post)
        = (case parse (''['' @ mid @ '']'') of Some (JArray xs) \<Rightarrow> Some xs | _ \<Rightarrow> None)"
    using extractJsonArray_between by blast
  have b: "(\<nexists>pre mid post. raw = pre @ ''['' @ mid @ '']'' @ post) \<longrightarrow>
      extractJsonArray parse raw = None"
    using extractJsonArray_no_pair by blast
  have e: "geminiApiKey \<noteq> [] \<and> generateContent metadata geminiApiKey = Inr response \<and>
    candidates response = Some (c # cs) \<and> response_text response = Some t \<and>
    (extractJsonArray parse (trim t) = None \<or>
     (\<exists>ps. extractJsonArray parse (trim t) = Some ps \<and> \<not> list_all is_string ps)) \<longrightarrow>
      generateReview parse generateContent metadata geminiApiKey
        = Inl (Classified \<lparr>name = ApiError, message = ''Gemini did not return a valid array of strings.''\<rparr>)"
  proof (intro impI, elim conjE)
    assume k: "geminiApiKey \<noteq> []"
      and h: "generateContent metadata geminiApiKey = Inr response"
        "candidates response = Some (c # cs)" "response_text response = Some t"
        "extractJsonArray parse (trim t) = None \<or>
         (\<exists>ps. extractJsonArray parse (trim t) = Some ps \<and> \<not> list_all is_string ps)"
    have "generateReview parse generateContent metadata geminiApiKey
        = Inl (Classified (new_ApiError invalid_array_message))"
      using k review_attempt_invalid [where generateContent = generateContent
          and metadata = metadata and geminiApiKey = geminiApiKey, OF h]
      by (simp add: generateReview_def reclassify_invalid_array)
    then show "generateReview parse generateContent metadata geminiApiKey
        = Inl (Classified \<lparr>name = ApiError, message = ''Gemini did not return a valid array of strings.''\<rparr>)"
      by (simp add: new_ApiError_def invalid_array_message_def)
  qed
  from a b extract_clean extract_noise e show ?thesis by blast
qed


theorem extractJsonArray_first_to_last_bracket_witness:
  \<open>CHR ''['' \<notin> set ''noise '' \<and> CHR '']'' \<notin> set '' trailing'' \<and>
   extractJsonArray JSON_parse (''noise '' @ ''['' @ '' "a", "b" '' @ '']'' @ '' trailing'')
     = Some [JString ''a'', JString ''b''] \<and>
   (\<nexists>pre mid post. ''no brackets'' = pre @ ''['' @ mid @ '']'' @ post) \<and>
   extractJsonArray JSON_parse ''no brackets'' = None \<and>
   ''key'' \<noteq> [] \<and>
   replying ''["a", 1]'' the_matrix ''key'' = Inr \<lparr>candidates = Some [()], response_text = Some ''["a", 1]''\<rparr> \<and>
   extractJsonArray JSON_parse (trim ''["a", 1]'') = Some [JString ''a'', JNumber ''1''] \<and>
   \<not> list_all is_string [JString ''a'', JNumber ''1''] \<and>
   generateReview JSON_parse (replying ''["a", 1]'') the_matrix ''key''
     = Inl (Classified \<lparr>name = ApiError, message = ''Gemini did not return a valid array of strings.''\<rparr>)\<close>
proof -
  note T = extractJsonArray_first_to_last_bracket [where parse = JSON_parse and pre = "''noise ''"
      and mid = \<open>'' "a", "b" ''\<close> and post = "'' trailing''" and raw = "''no brackets''"
      and geminiApiKey = "''key''" and generateContent = \<open>replying ''["a", 1]''\<close>
      and metadata = the_matrix
      and response = \<open>\<lparr>candidates = Some [()], response_text = Some ''["a", 1]''\<rparr>\<close>
      and c = "()" and cs = "[]" and t = \<open>''["a", 1]''\<close>]
  have h1: "CHR ''['' \<notin> set ''noise ''" "CHR '']'' \<notin> set '' trailing''"
    by simp_all
  have p: \<open>JSON_parse (''['' @ '' "a", "b" '' @ '']'') = Some (JArray [JString ''a'', JString ''b''])\<close>
    by code_simp
  from T h1 have c1: \<open>extractJsonArray JSON_parse (''noise '' @ ''['' @ '' "a", "b" '' @ '']'' @ '' trailing'')
      = (case JSON_parse (''['' @ '' "a", "b" '' @ '']'') of Some (JArray xs) \<Rightarrow> Some xs | _ \<Rightarrow> None)\<close>
    by blast
  have c1': \<open>extractJsonArray JSON_parse (''noise '' @ ''['' @ '' "a", "b" '' @ '']'' @ '' trailing'')
     = Some [JString ''a'', JString ''b'']\<close>
    unfolding c1 p by simp
  have h2: "\<nexists>pre mid post. ''no brackets'' = pre @ ''['' @ mid @ '']'' @ post"
  proof
    assume "\<exists>pre mid post. ''no brackets'' = pre @ ''['' @ mid @ '']'' @ post"
    then obtain pre mid post where eq: "''no brackets'' = pre @ ''['' @ mid @ '']'' @ post"
      by blast
    have "CHR ''['' \<in> set (pre @ ''['' @ mid @ '']'' @ post)" by simp
    then have "CHR ''['' \<in> set ''no brackets''" unfolding eq [symmetric] .
    then show False by simp
  qed
  from T h2 have c2: "extractJsonArray JSON_parse ''no brackets'' = None"
    by blast
  have k: "''key'' \<noteq> []" by simp
  have r: \<open>replying ''["a", 1]'' the_matrix ''key''
      = Inr \<lparr>candidates = Some [()], response_text = Some ''["a", 1]''\<rparr>\<close>
    by (simp add: replying_def)
  have x: \<open>extractJsonArray JSON_parse (trim ''["a", 1]'') = Some [JString ''a'', JNumber ''1'']\<close>
    by code_simp
  have n: "\<not> list_all is_string [JString ''a'', JNumber ''1'']"
    by simp
  have f: \<open>candidates \<lparr>candidates = Some [()], response_text = Some ''["a", 1]''\<rparr> = Some [()]\<close>
    \<open>response_text \<lparr>candidates = Some [()], response_text = Some ''["a", 1]''\<rparr> = Some ''["a", 1]''\<close>
    by simp_all
  from T k r f x n have c3: \<open>generateReview JSON_parse (replying ''["a", 1]'') the_matrix ''key''
     = Inl (Classified \<lparr>name = ApiError, message = ''Gemini did not return a valid array of strings.''\<rparr>)\<close>
    by blast
  from h1 c1' h2 c2 k r x n c3 show ?thesis by blast
qed

text \<open>
  Claim C1, amended. \<open>generateReview\<close> returns success exactly when the key is not
  empty, the model call completes with a candidate and a text, and the array extracted
  from the trimmed text has only strings; what it returns is that array, element by
  element. Nothing bounds the number of strings or excludes empty ones: the
  counterexample returns an array of one string, and an empty one.
\<close>

theorem generateReview_success_is_parsed_array:
  "generateReview parse generateContent metadata geminiApiKey = Inr pts \<longleftrightarrow>
     geminiApiKey \<noteq> [] \<and>
     (\<exists>response t ps. generateContent metadata geminiApiKey = Inr response \<and>
        candidates response \<noteq> None \<and> candidates response \<noteq> Some [] \<and>
        response_text response = Some t \<and>
        extractJsonArray parse (trim t) = Some ps \<and> list_all is_string ps \<and>
        pts = map string_of ps)"
  by (auto simp: generateReview_def review_attempt_def Let_def split: sum.splits option.splits if_splits)

theorem generateReview_short_success_counterexample:
  \<open>generateReview JSON_parse (replying ''["ok"]'') the_matrix ''key'' = Inr [''ok''] \<and>
   length [''ok''] < 8 \<and>
   generateReview JSON_parse (replying ''[]'') the_matrix ''key'' = Inr []\<close>
  by code_simp


theorem generateReview_success_is_parsed_array_witness:
  \<open>''key'' \<noteq> [] \<and>
   replying '' Sure: ["a","b"]'' the_matrix ''key''
     = Inr \<lparr>candidates = Some [()], response_text = Some '' Sure: ["a","b"]''\<rparr> \<and>
   extractJsonArray JSON_parse (trim '' Sure: ["a","b"]'') = Some [JString ''a'', JString ''b''] \<and>
   list_all is_string [JString ''a'', JString ''b''] \<and>
   generateReview JSON_parse (replying '' Sure: ["a","b"]'') the_matrix ''key'' = Inr [''a'', ''b'']\<close>
proof -
  have k: "''key'' \<noteq> []" by simp
  have r: \<open>replying '' Sure: ["a","b"]'' the_matrix ''key''
     = Inr \<lparr>candidates = Some [()], response_text = Some '' Sure: ["a","b"]''\<rparr>\<close>
    by (simp add: replying_def)
  have x: \<open>extractJsonArray JSON_parse (trim '' Sure: ["a","b"]'') = Some [JString ''a'', JString ''b'']\<close>
    by code_simp
  have a: "list_all is_string [JString ''a'', JString ''b'']" by simp
  have ex: \<open>\<exists>response t ps. replying '' Sure: ["a","b"]'' the_matrix ''key'' = Inr response \<and>
        candidates response \<noteq> None \<and> candidates response \<noteq> Some [] \<and>
        response_text response = Some t \<and>
        extractJsonArray JSON_parse (trim t) = Some ps \<and> list_all is_string ps \<and>
        [''a'', ''b''] = map string_of ps\<close>
    using r x a
    by (intro exI [of _ \<open>\<lparr>candidates = Some [()], response_text = Some '' Sure: ["a","b"]''\<rparr>\<close>]
        exI [of _ \<open>'' Sure: ["a","b"]''\<close>] exI [of _ "[JString ''a'', JString ''b'']"]) simp
  have g: \<open>generateReview JSON_parse (replying '' Sure: ["a","b"]'') the_matrix ''key'' = Inr [''a'', ''b'']\<close>
    by (rule generateReview_success_is_parsed_array [where parse = JSON_parse
        and generateContent = \<open>replying '' Sure: ["a","b"]''\<close> and metadata = the_matrix
        and geminiApiKey = "''key''" and pts = "[''a'', ''b'']", THEN iffD2, OF conjI [OF k ex]])
  show ?thesis
    by (intro conjI k r x a g)
qed

subsection \<open>Catalog resolver\<close>

lemma handleApiResponse_ok:
  "ok r \<Longrightarrow> body r = Some b \<Longrightarrow> handleApiResponse r svc = Inr b"
  by (simp add: handleApiResponse_def json_def)

lemma getMetadata_series_found:
  assumes "find_by_imdb cat apiKey imdb = Inr rsp" "ok rsp" "body rsp = Some findData"
    and "tv_results findData = s # ss"
  shows "getMetadata cat series imdb se ep apiKey =
     (case (se, ep) of
        (Some sn, Some en) \<Rightarrow>
          if truthy sn \<and> truthy en then
            await (episode_lookup cat apiKey (item_id s) sn en) (\<lambda>episodeResponse.
            await (handleApiResponse episodeResponse ''TMDB'') (\<lambda>episodeData.
              Inr (Some (episode_record imdb s sn en episodeData))))
          else Inr (Some (series_record imdb s))
      | _ \<Rightarrow> Inr (Some (series_record imdb s)))"
  using assms by (simp add: getMetadata_def await_def handleApiResponse_ok)

lemma series_record_fields:
  "season (series_record imdb s) = None" "episode (series_record imdb s) = None"
  "episodeTitle (series_record imdb s) = None"
  by (simp_all add: series_record_def)

lemma handleApiResponse_Inr:
  "handleApiResponse r svc = Inr b \<Longrightarrow> ok r \<and> body r = Some b"
  by (auto simp: handleApiResponse_def json_def split: if_splits option.splits)

text \<open>
  Claim C8. When the identifier matches a series and the season or the episode is not
  given, \<open>getMetadata\<close> returns the record of the series, with its title, year and
  overview and without season, episode or episode title, and the episode lookup has no
  part in the result. A record with a season, an episode or an episode title comes only
  from a call in which both were given and the second lookup answered.
\<close>

theorem series_without_episode:
  assumes "find_by_imdb cat apiKey imdb = Inr rsp" "ok rsp" "body rsp = Some findData"
    and "tv_results findData = s # ss"
  shows "(se = None \<or> ep = None \<longrightarrow>
            getMetadata cat series imdb se ep apiKey
              = Inr (Some \<lparr>tmdbId = Some (item_id s), imdbId = Some imdb, title = item_name s,
                    year = year_of (first_air_date s), overview = item_overview s, type = series,
                    season = None, episode = None, episodeTitle = None, cast = None,
                    originCountry = None, seasons = None\<rparr>) \<and>
            (\<forall>lookup. getMetadata (cat\<lparr>episode_lookup := lookup\<rparr>) series imdb se ep apiKey
                     = getMetadata cat series imdb se ep apiKey)) \<and>
         (\<forall>md. getMetadata cat series imdb se ep apiKey = Inr (Some md) \<and>
               (season md \<noteq> None \<or> episode md \<noteq> None \<or> episodeTitle md \<noteq> None) \<longrightarrow>
               (\<exists>sn en episodeResponse episodeData.
                  se = Some sn \<and> ep = Some en \<and>
                  episode_lookup cat apiKey (item_id s) sn en = Inr episodeResponse \<and>
                  ok episodeResponse \<and> body episodeResponse = Some episodeData \<and>
                  md = episode_record imdb s sn en episodeData))"
proof (intro conjI impI allI)
  assume u: "se = None \<or> ep = None"
  have g: "getMetadata cat series imdb se ep apiKey = Inr (Some (series_record imdb s))"
    using u by (auto simp: getMetadata_series_found [OF assms] split: option.splits)
  then show "getMetadata cat series imdb se ep apiKey
              = Inr (Some \<lparr>tmdbId = Some (item_id s), imdbId = Some imdb, title = item_name s,
                    year = year_of (first_air_date s), overview = item_overview s, type = series,
                    season = None, episode = None, episodeTitle = None, cast = None,
                    originCountry = None, seasons = None\<rparr>)"
    by (simp add: series_record_def)
  fix lookup
  have f: "find_by_imdb (cat\<lparr>episode_lookup := lookup\<rparr>) apiKey imdb = Inr rsp"
    using assms(1) by simp
  have "getMetadata (cat\<lparr>episode_lookup := lookup\<rparr>) series imdb se ep apiKey
      = Inr (Some (series_record imdb s))"
    using u by (auto simp: getMetadata_series_found [OF f assms(2-4)] split: option.splits)
  with g show "getMetadata (cat\<lparr>episode_lookup := lookup\<rparr>) series imdb se ep apiKey
                     = getMetadata cat series imdb se ep apiKey"
    by simp
next
  fix md
  assume a: "getMetadata cat series imdb se ep apiKey = Inr (Some md) \<and>
     (season md \<noteq> None \<or> episode md \<noteq> None \<or> episodeTitle md \<noteq> None)"
  then have m: "getMetadata cat series imdb se ep apiKey = Inr (Some md)"
    and e: "md \<noteq> series_record imdb s"
    using series_record_fields by auto
  from m e obtain sn en where se: "se = Some sn" "ep = Some en" and t: "truthy sn \<and> truthy en"
    unfolding getMetadata_series_found [OF assms]
    by (auto split: option.splits if_splits)
  from m obtain episodeResponse where l: "episode_lookup cat apiKey (item_id s) sn en = Inr episodeResponse"
    unfolding getMetadata_series_found [OF assms] se using t
    by (cases "episode_lookup cat apiKey (item_id s) sn en") (auto simp: await_def)
  from m obtain episodeData where h: "handleApiResponse episodeResponse ''TMDB'' = Inr episodeData"
    and r: "md = episode_record imdb s sn en episodeData"
    unfolding getMetadata_series_found [OF assms] se using t l
    by (cases "handleApiResponse episodeResponse ''TMDB''") (auto simp: await_def)
  from handleApiResponse_Inr [OF h] se l r
  show "\<exists>sn en episodeResponse episodeData.
                  se = Some sn \<and> ep = Some en \<and>
                  episode_lookup cat apiKey (item_id s) sn en = Inr episodeResponse \<and>
                  ok episodeResponse \<and> body episodeResponse = Some episodeData \<and>
                  md = episode_record imdb s sn en episodeData"
    by blast
qed


lemma year_of_examples:
  "year_of (Some ''2008-01-20'') = Num 2008" "year_of (Some ''1999-03-30'') = Num 1999"
  "year_of None = Num 0"
  by code_simp+

theorem series_without_episode_witness:
  "find_by_imdb demo_catalog ''k'' ''tt0903747''
     = Inr \<lparr>status = 200, body = Some \<lparr>movie_results = [], tv_results = [bb_item]\<rparr>\<rparr> \<and>
   ok \<lparr>status = 200, body = Some \<lparr>movie_results = [], tv_results = [bb_item]\<rparr>\<rparr> \<and>
   getMetadata demo_catalog series ''tt0903747'' None None ''k''
     = Inr (Some \<lparr>tmdbId = Some 1396, imdbId = Some ''tt0903747'', title = ''Breaking Bad'',
           year = Num 2008, overview = ''A teacher turns to crime.'', type = series,
           season = None, episode = None, episodeTitle = None, cast = None,
           originCountry = None, seasons = None\<rparr>) \<and>
   getMetadata demo_catalog series ''tt0903747'' (Some (Num 1)) (Some (Num 2)) ''k''
     = Inr (Some \<lparr>tmdbId = Some 1396, imdbId = Some ''tt0903747'', title = ''Breaking Bad'',
           year = Num 2008, overview = ''Walter White starts out.'', type = series,
           season = Some (Num 1), episode = Some (Num 2), episodeTitle = Some ''Pilot'',
           cast = None, originCountry = None, seasons = None\<rparr>)"
proof -
  let ?D = "\<lparr>movie_results = [], tv_results = [bb_item]\<rparr>"
  let ?R = "\<lparr>status = 200, body = Some ?D\<rparr>"
  have h1: "find_by_imdb demo_catalog ''k'' ''tt0903747'' = Inr ?R"
    by (simp add: demo_catalog_def)
  have h2: "ok ?R" by (simp add: ok_def)
  have h3: "body ?R = Some ?D" by simp
  have h4: "tv_results ?D = bb_item # []" by simp
  note T = series_without_episode [where cat = demo_catalog and apiKey = "''k''"
      and imdb = "''tt0903747''" and se = None and ep = None, OF h1 h2 h3 h4]
  from T have "getMetadata demo_catalog series ''tt0903747'' None None ''k''
     = Inr (Some \<lparr>tmdbId = Some (item_id bb_item), imdbId = Some ''tt0903747'', title = item_name bb_item,
           year = year_of (first_air_date bb_item), overview = item_overview bb_item, type = series,
           season = None, episode = None, episodeTitle = None, cast = None,
           originCountry = None, seasons = None\<rparr>)"
    by blast
  then have a: "getMetadata demo_catalog series ''tt0903747'' None None ''k''
     = Inr (Some \<lparr>tmdbId = Some 1396, imdbId = Some ''tt0903747'', title = ''Breaking Bad'',
           year = Num 2008, overview = ''A teacher turns to crime.'', type = series,
           season = None, episode = None, episodeTitle = None, cast = None,
           originCountry = None, seasons = None\<rparr>)"
    by (simp add: bb_item_def year_of_examples)
  have b: "getMetadata demo_catalog series ''tt0903747'' (Some (Num 1)) (Some (Num 2)) ''k''
     = Inr (Some \<lparr>tmdbId = Some 1396, imdbId = Some ''tt0903747'', title = ''Breaking Bad'',
           year = Num 2008, overview = ''Walter White starts out.'', type = series,
           season = Some (Num 1), episode = Some (Num 2), episodeTitle = Some ''Pilot'',
           cast = None, originCountry = None, seasons = None\<rparr>)"
  proof -
    have e: "\<And>i. episode_lookup demo_catalog ''k'' i (Num 1) (Num 2)
        = Inr \<lparr>status = 200, body = Some
            \<lparr>episode_overview = ''Walter White starts out.'', episode_name = ''Pilot''\<rparr>\<rparr>"
      by (simp add: demo_catalog_def)
    show ?thesis
      unfolding getMetadata_series_found [OF h1 h2 h3 h4]
      by (simp add: e await_def handleApiResponse_def ok_def json_def episode_record_def
          bb_item_def year_of_examples)
  qed
  show ?thesis by (intro conjI h1 h2 a b)
qed



















subsection \<open>Protocol surface\<close>

lemma hex_table: "list_all is_hex ''0123456789abcdef''" "\<not> is_hex (CHR ''-'')"
  by code_simp+

lemma digit_char_hex: "d < 16 \<Longrightarrow> is_hex (digit_char d)"
proof -
  assume "d < 16"
  then have "digit_char d \<in> set ''0123456789abcdef''"
    unfolding digit_char_def by (intro nth_mem) simp
  with hex_table(1) show ?thesis
    unfolding list_all_iff by blast
qed

lemma hex_nat_hex: "list_all is_hex (hex_nat n)"
proof (induction n rule: hex_nat.induct)
  case (1 n)
  show ?case
  proof (cases "n < 16")
    case True
    then show ?thesis by (simp add: hex_nat.simps [of n] digit_char_hex)
  next
    case False
    with 1 show ?thesis by (simp add: hex_nat.simps [of n] digit_char_hex)
  qed
qed

lemma hex_nat_length: "n < 16 ^ k \<Longrightarrow> 0 < k \<Longrightarrow> length (hex_nat n) \<le> k"
proof (induction k arbitrary: n)
  case 0
  then show ?case by simp
next
  case (Suc k)
  show ?case
  proof (cases "n < 16")
    case True
    then show ?thesis by (simp add: hex_nat.simps [of n])
  next
    case False
    from Suc.prems(1) have d: "n div 16 < 16 ^ k"
      by (simp add: less_mult_imp_div_less mult.commute)
    from False d have k: "0 < k"
      by (cases k) auto
    from Suc.IH [OF d k] False show ?thesis
      by (simp add: hex_nat.simps [of n])
  qed
qed

lemma hex_nat_nonempty: "hex_nat n \<noteq> []"
  by (simp add: hex_nat.simps [of n])

lemma toString16_length: "- (2 ^ 31) \<le> n \<Longrightarrow> n < 2 ^ 31 \<Longrightarrow> length (toString16 n) \<le> 9"
proof -
  assume a: "- (2 ^ 31) \<le> n" "n < 2 ^ 31"
  have "nat \<bar>n\<bar> < 16 ^ 8" using a by simp
  then have "length (hex_nat (nat \<bar>n\<bar>)) \<le> 8" by (rule hex_nat_length) simp
  then show ?thesis
    by (auto simp: toString16_def abs_if split: if_splits)
qed

lemma rolling_hash_range: "- (2 ^ 31) \<le> rolling_hash s \<and> rolling_hash s < 2 ^ 31"
  unfolding rolling_hash_def
  using sint_ge [of "foldl hash_step 0 s"] sint_lt [of "foldl hash_step 0 s"] by simp

text \<open>
  The pseudo-identifier is a function of the identifier, the season and the episode, and
  always has 40 characters. They are all hexadecimal digits exactly when the hash is not
  negative: a negative hash puts a minus sign among them.
\<close>

theorem infoHash_shape:
  "length (infoHash_of imdb se ep) = 40 \<and>
   (list_all is_hex (infoHash_of imdb se ep) \<longleftrightarrow> 0 \<le> rolling_hash (imdb @ or_empty se @ or_empty ep))"
proof -
  let ?h = "rolling_hash (imdb @ or_empty se @ or_empty ep)"
  have l: "length (toString16 ?h) \<le> 9"
    using rolling_hash_range [of "imdb @ or_empty se @ or_empty ep"] by (intro toString16_length) simp_all
  have e: "infoHash_of imdb se ep = replicate (40 - length (toString16 ?h)) (CHR ''0'') @ toString16 ?h"
    using l by (simp add: infoHash_of_def padStart_def)
  have z: "is_hex (CHR ''0'')" using hex_table(1) by simp
  have len: "length (infoHash_of imdb se ep) = 40"
    unfolding e using l by simp
  have "list_all is_hex (toString16 ?h) \<longleftrightarrow> 0 \<le> ?h"
    using hex_nat_hex hex_table(2) by (simp add: toString16_def)
  moreover have "list_all is_hex (replicate k (CHR ''0''))" for k
    using z by (induction k) simp_all
  ultimately have "list_all is_hex (infoHash_of imdb se ep) \<longleftrightarrow> 0 \<le> ?h"
    unfolding e by simp
  with len show ?thesis by simp
qed

lemma rolling_hash_matrix: "rolling_hash ''tt0133093'' = - 2101752567"
  by (simp add: rolling_hash_def hash_step_def charCode_def)

lemma toString16_matrix: "toString16 (- 2101752567) = ''-7d4632f7''"
  by (simp add: toString16_def hex_nat.simps digit_char_def)

lemma infoHash_matrix: "infoHash_of ''tt0133093'' None None = ''0000000000000000000000000000000-7d4632f7''"
  by (simp add: infoHash_of_def or_empty_def rolling_hash_matrix toString16_matrix padStart_def eval_nat_numeral)


lemma stream_match_examples:
  "stream_match ''/stream/movie/tt0133093.json'' = Some (movie, ''tt0133093'', None, None)"
  "stream_match ''/stream/movie/0133093.json'' = None"
  by code_simp+

lemma keys_examples:
  "areKeysSetup configured" "\<not> areKeysSetup unconfigured"
  "tmdb configured = ''t''" "gemini configured = ''g''"
  by (simp_all add: areKeysSetup_def configured_def unconfigured_def trim_def is_space_def charCode_def)

lemma getMetadata_matrix:
  "getMetadata demo_catalog movie ''tt0133093'' None None ''t''
     = Inr (Some (movie_record ''tt0133093'' matrix_item))"
  by (simp add: getMetadata_def demo_catalog_def await_def handleApiResponse_def ok_def json_def)

lemma extract_eight_lines:
  "extractJsonArray JSON_parse (trim eight_lines)
     = Some (map JString eight_points)"
  by code_simp

lemma generateReview_eight_lines:
  "generateReview JSON_parse (replying eight_lines) metadata ''g''
     = Inr eight_points"
  by (simp add: generateReview_def review_attempt_def replying_def extract_eight_lines eight_points_def)

text \<open>
  Claim C7. For the path \<open>/stream/movie/tt0133093.json\<close>, with the catalog and the model
  answering, the hash of \<open>tt0133093\<close> is negative and the pseudo-identifier of the
  descriptor is 31 zeros, a minus sign and 8 digits: 40 characters, not all hexadecimal.
\<close>

theorem infoHash_not_hexadecimal:
  "handleRequest JSON_parse demo_catalog (replying eight_lines) ''/stream/movie/tt0133093.json''
       True configured
     = Some [\<lparr>entry_name = Gemini_Review_name,
              entry_title = join [CHR 0x0A] eight_points,
              infoHash = Some ''0000000000000000000000000000000-7d4632f7'',
              notPlayable = True\<rparr>] \<and>
   rolling_hash ''tt0133093'' = - 2101752567 \<and>
   \<not> list_all is_hex ''0000000000000000000000000000000-7d4632f7''"
proof -
  have a: "stream_attempt JSON_parse demo_catalog (replying eight_lines) configured movie
      ''tt0133093'' None None
    = Inr [\<lparr>entry_name = Gemini_Review_name,
              entry_title = join [CHR 0x0A] eight_points,
              infoHash = Some ''0000000000000000000000000000000-7d4632f7'',
              notPlayable = True\<rparr>]"
    by (simp add: stream_attempt_def group_number_def keys_examples getMetadata_matrix await_def
        generateReview_eight_lines infoHash_matrix eight_points_def)
  have p: "strip_prefix ''/stream/'' ''/stream/movie/tt0133093.json'' \<noteq> None"
    by (simp add: strip_prefix_def)
  have h: "handleRequest JSON_parse demo_catalog (replying eight_lines) ''/stream/movie/tt0133093.json''
       True configured
     = Some [\<lparr>entry_name = Gemini_Review_name,
              entry_title = join [CHR 0x0A] eight_points,
              infoHash = Some ''0000000000000000000000000000000-7d4632f7'',
              notPlayable = True\<rparr>]"
    unfolding handleRequest_def stream_match_examples(1)
    using p by (simp add: keys_examples a)
  have x: "\<not> list_all is_hex ''0000000000000000000000000000000-7d4632f7''"
    using hex_table(2) by simp
  from h rolling_hash_matrix x show ?thesis by simp
qed




end
